theory Spec2Isabelle
  imports Complex_Main "HOL-Library.Multiset"
begin

section \<open>Values shared by the player code\<close>

text \<open>
  A JavaScript \<open>number\<close>. The finite values are embedded in the reals; \<open>Num 0\<close> stands for both zeros, which the code below cannot tell apart.
  Only two operations of the source read a number: the truthiness test of
  \<open>if (seek)\<close> / \<open>if (!speed)\<close> / \<open>options.seek ? ... : ...\<close>, and \<open>Math.ceil\<close>.
  Both are exact on doubles.
\<close>

datatype number = Num real | NaN | PosInfinity | NegInfinity

fun truthy :: "number \<Rightarrow> bool" where
  "truthy (Num r) = (r \<noteq> 0)"
| "truthy NaN = False"
| "truthy PosInfinity = True"
| "truthy NegInfinity = True"

text \<open>Truthiness of an optional property: \<open>undefined\<close> is falsy.\<close>

fun truthy_opt :: "number option \<Rightarrow> bool" where
  "truthy_opt None = False"
| "truthy_opt (Some n) = truthy n"

fun Math_ceil :: "number \<Rightarrow> number" where
  "Math_ceil (Num r) = Num (of_int \<lceil>r\<rceil>)"
| "Math_ceil NaN = NaN"
| "Math_ceil PosInfinity = PosInfinity"
| "Math_ceil NegInfinity = NegInfinity"

text \<open>
  A thrown value. \<open>JsError code message\<close> is an error object with its optional \<open>code\<close>
  property; \<open>Primitive\<close> is a thrown value that is not an object. \<open>ResolutionError\<close> is the
  wrapper class of the specification's error taxonomy: no statement of the source constructs
  it, it is here so that statements about it can be written down.
\<close>

datatype thrown =
    JsError "string option" string
  | Primitive string
  | ResolutionError thrown

text \<open>
  The test of \<open>onError\<close>:
  \<open>typeof err === 'object' && err && 'code' in err && err.code === 'ERR_STREAM_PREMATURE_CLOSE'\<close>.
\<close>

fun premature_close :: "thrown \<Rightarrow> bool" where
  "premature_close (JsError (Some c) m) = (c = ''ERR_STREAM_PREMATURE_CLOSE'')"
| "premature_close (JsError None m) = False"
| "premature_close (Primitive s) = False"
| "premature_close (ResolutionError e) = False"

section \<open>Track\<close>

record VideoDetails =
  title :: string
  duration :: "number option"

record AudioResourceOptions =
  seek :: "number option"
  speed :: "number option"

datatype TrackVariant = YOUTUBE_VOD | YOUTUBE_LIVESTREAM | TWITCH_VOD | TWITCH_LIVESTREAM

text \<open>
  Objects of type \<open>VideoDetails\<close> live in a store and are referred to by address, because
  \<open>getVideoDetails\<close> distinguishes the cached object from the copies it hands out.
  The private field \<open>details\<close> of a Track holds such a reference or \<open>undefined\<close>.
\<close>

type_synonym addr = nat

record Track =
  link :: string
  variant :: TrackVariant
  sourceLink :: "string option"
  details :: "addr option"

text \<open>The constructor copies its four options into the fields.\<close>

record TrackConstructorOptions =
  opt_link :: string
  opt_variant :: TrackVariant
  opt_details :: "addr option"
  opt_sourceLink :: "string option"

definition new_Track :: "TrackConstructorOptions \<Rightarrow> Track" where
  "new_Track options =
     \<lparr> link = opt_link options, variant = opt_variant options,
       sourceLink = opt_sourceLink options, details = opt_details options \<rparr>"

subsection \<open>The outside world\<close>

text \<open>
  What \<open>play.stream\<close> resolves to: an opaque stream and its type tag.
\<close>

record PlayDlSource =
  stream :: nat
  stream_type :: string

text \<open>
  How the child process started by \<open>ytdlExec\<close> behaves: the call itself throws inside the
  promise executor; the process has no stdout; the process promise rejects before the \<open>spawn\<close>
  event (\<open>onError\<close> runs and its \<open>reject\<close> settles the promise); \<open>spawn\<close> fires, hands over the
  stdout stream and the process runs on without an error; or \<open>spawn\<close> fires and the process
  promise rejects afterwards (\<open>onError\<close> runs when the promise of \<open>tryYtdlExec\<close> is already
  resolved, so its \<open>reject\<close> does nothing; what it logs then is part of the trace that
  \<open>tryYtdlExec\<close> leaves).
\<close>

datatype ytdl_outcome =
    Throws thrown
  | NoStdout
  | FailsBeforeSpawn thrown
  | Spawns nat
  | SpawnsThenFails nat thrown

text \<open>
  The external providers, as the answers they give to one call. A fresh \<open>providers\<close> value
  can be supplied to every operation, so answers may change from call to call.
\<close>

record providers =
  play_stream :: "string \<Rightarrow> number option \<Rightarrow> thrown + PlayDlSource"
  ytdlExec :: "string \<Rightarrow> ytdl_outcome"
  getYoutubeDetailsFromUrl :: "string \<Rightarrow> thrown + VideoDetails"

text \<open>
  Everything observable that the operations do, in order: calls to the providers and
  calls to the logger \<open>error\<close>.
\<close>

datatype event =
    CallPlayDl string "number option"
  | CallYtdlExec string
  | CallYoutubeDetails string
  | LogPlayDlError thrown
  | LogError thrown

record world =
  heap :: "VideoDetails list"
  trace :: "event list"

definition emit :: "event \<Rightarrow> world \<Rightarrow> world" where
  "emit e w = w\<lparr> trace := trace w @ [e] \<rparr>"

text \<open>
  The audio handed to \<open>createAudioResource\<close> of the voice library: either the play-dl
  stream as it is, or the ytdl-exec stdout piped through ffmpeg to mp3, with the audio filters
  and the start time that were set on it. The filter string \<open>atempo=${speed}\<close> is kept as the
  number it is built from. The constructors of the libraries (\<open>ffmpeg(...)\<close>, the voice
  library's \<open>createAudioResource\<close>) are taken to return; a failure of play-dl at any point
  of \<open>tryPlayDl\<close> is an \<open>Inl\<close> answer of \<open>play_stream\<close>.
\<close>

datatype audio_filter = Atempo number

datatype audio_input =
    FromPlayDl nat
  | FromFfmpegMp3 nat "audio_filter list" "number option"

record AudioResource =
  input :: audio_input
  inputType :: "string option"
  metadata :: Track

subsection \<open>createAudioResource\<close>

text \<open>
  \<open>tryPlayDl\<close>: \<open>options.seek ? play.stream(link, {seek: options.seek}) : play.stream(link)\<close>.
  \<open>playdl_seek\<close> is the seek option that reaches \<open>play.stream\<close>.
\<close>

definition playdl_seek :: "AudioResourceOptions \<Rightarrow> number option" where
  "playdl_seek options =
     (case seek options of
        None \<Rightarrow> None
      | Some s \<Rightarrow> (if truthy s then Some s else None))"

definition tryPlayDl ::
  "providers \<Rightarrow> Track \<Rightarrow> AudioResourceOptions \<Rightarrow> world \<Rightarrow> (thrown + AudioResource) \<times> world" where
  "tryPlayDl env this options w =
     (let w1 = emit (CallPlayDl (link this) (playdl_seek options)) w
      in case play_stream env (link this) (playdl_seek options) of
           Inl err \<Rightarrow> (Inl err, w1)
         | Inr source \<Rightarrow>
             (Inr \<lparr> input = FromPlayDl (stream source),
                    inputType = Some (stream_type source),
                    metadata = this \<rparr>, w1))"

text \<open>
  The \<open>spawn\<close> callback of \<open>tryYtdlExec\<close>:
  \<open>if (speed) manipulatedStream.audioFilters(`atempo=${speed}`)\<close> and
  \<open>if (seek) manipulatedStream.setStartTime(Math.ceil(seek))\<close>.
\<close>

definition ffmpeg_filters :: "AudioResourceOptions \<Rightarrow> audio_filter list" where
  "ffmpeg_filters options =
     (case speed options of
        None \<Rightarrow> []
      | Some s \<Rightarrow> (if truthy s then [Atempo s] else []))"

definition ffmpeg_start :: "AudioResourceOptions \<Rightarrow> number option" where
  "ffmpeg_start options =
     (case seek options of
        None \<Rightarrow> None
      | Some s \<Rightarrow> (if truthy s then Some (Math_ceil s) else None))"

definition tryYtdlExec ::
  "providers \<Rightarrow> Track \<Rightarrow> AudioResourceOptions \<Rightarrow> world \<Rightarrow> (thrown + AudioResource) \<times> world" where
  "tryYtdlExec env this options w =
     (let w1 = emit (CallYtdlExec (link this)) w
      in case ytdlExec env (link this) of
           Throws err \<Rightarrow> (Inl err, w1)
         | NoStdout \<Rightarrow> (Inl (JsError None ''No stdout''), w1)
         | FailsBeforeSpawn err \<Rightarrow>
             (Inl err, if premature_close err then w1 else emit (LogError err) w1)
         | Spawns out \<Rightarrow>
             (Inr \<lparr> input = FromFfmpegMp3 out (ffmpeg_filters options) (ffmpeg_start options),
                    inputType = None,
                    metadata = this \<rparr>, w1)
         | SpawnsThenFails out err \<Rightarrow>
             (Inr \<lparr> input = FromFfmpegMp3 out (ffmpeg_filters options) (ffmpeg_start options),
                    inputType = None,
                    metadata = this \<rparr>,
              if premature_close err then w1 else emit (LogError err) w1))"

text \<open>
  The \<open>switch\<close> on the variant: the two YouTube cases share one block, which tries play-dl
  only when \<open>speed\<close> is falsy and falls through to the default block unless play-dl
  returned a resource.
\<close>

fun youtube_case :: "TrackVariant \<Rightarrow> bool" where
  "youtube_case YOUTUBE_LIVESTREAM = True"
| "youtube_case YOUTUBE_VOD = True"
| "youtube_case TWITCH_VOD = False"
| "youtube_case TWITCH_LIVESTREAM = False"

definition createAudioResource ::
  "providers \<Rightarrow> Track \<Rightarrow> AudioResourceOptions \<Rightarrow> world \<Rightarrow> (thrown + AudioResource) \<times> world" where
  "createAudioResource env this options w =
     (if youtube_case (variant this) then
        (if \<not> truthy_opt (speed options) then
           (case tryPlayDl env this options w of
              (Inr audioResource, w1) \<Rightarrow> (Inr audioResource, w1)
            | (Inl err, w1) \<Rightarrow> tryYtdlExec env this options (emit (LogPlayDlError err) w1))
         else tryYtdlExec env this options w)
      else tryYtdlExec env this options w)"

text \<open>\<open>getAudioResource\<close> defaults the options to \<open>{}\<close>.\<close>

definition no_options :: AudioResourceOptions where
  "no_options = \<lparr> seek = None, speed = None \<rparr>"

definition getAudioResource ::
  "providers \<Rightarrow> Track \<Rightarrow> AudioResourceOptions option \<Rightarrow> world \<Rightarrow> (thrown + AudioResource) \<times> world" where
  "getAudioResource env this options w =
     createAudioResource env this (case options of None \<Rightarrow> no_options | Some o1 \<Rightarrow> o1) w"

subsection \<open>getVideoDetails\<close>

text \<open>
  An object literal or a spread \<open>{ ...obj }\<close> creates a new object: it gets the next free
  address. Writing a property of an object changes the store at its address only.
\<close>

definition alloc :: "VideoDetails \<Rightarrow> world \<Rightarrow> addr \<times> world" where
  "alloc v w = (length (heap w), w\<lparr> heap := heap w @ [v] \<rparr>)"

definition spread :: "addr \<Rightarrow> world \<Rightarrow> addr \<times> world" where
  "spread a w = alloc (heap w ! a) w"

definition mutate :: "addr \<Rightarrow> (VideoDetails \<Rightarrow> VideoDetails) \<Rightarrow> world \<Rightarrow> world" where
  "mutate a f w = w\<lparr> heap := (heap w)[a := f (heap w ! a)] \<rparr>"

text \<open>
  A reference held by a Track points to an allocated object (JavaScript has no dangling
  references).
\<close>

definition track_ok :: "Track \<Rightarrow> world \<Rightarrow> bool" where
  "track_ok this w = (case details this of None \<Rightarrow> True | Some a \<Rightarrow> a < length (heap w))"

text \<open>
  The assignment \<open>this.details = v\<close> followed by the final \<open>return { ...this.details }\<close>.
\<close>

definition assign_and_return ::
  "addr \<Rightarrow> Track \<Rightarrow> world \<Rightarrow> (thrown + addr) \<times> Track \<times> world" where
  "assign_and_return a this w =
     (let this1 = this\<lparr> details := Some a \<rparr>;
          (r, w1) = spread a w
      in (Inr r, this1, w1))"

text \<open>
  \<open>getVideoDetails\<close> is an async function with one \<open>await\<close>. A call runs without
  interruption from its start to that \<open>await\<close> or to its \<open>return\<close>: the memo check, then the
  \<open>switch\<close> with its two YouTube cases, which call \<open>getYoutubeDetailsFromUrl\<close> and suspend,
  the case \<open>TWITCH_VOD\<close> and the default case (the variant left is \<open>TWITCH_LIVESTREAM\<close>),
  which assign the placeholder and return.
\<close>

datatype call_state = Settled "thrown + addr" | AwaitingDetails

definition getVideoDetails_start :: "Track \<Rightarrow> world \<Rightarrow> call_state \<times> Track \<times> world" where
  "getVideoDetails_start this w =
     (case details this of
        Some a \<Rightarrow> (let (r, w1) = spread a w in (Settled (Inr r), this, w1))
      | None \<Rightarrow>
          (case variant this of
             YOUTUBE_LIVESTREAM \<Rightarrow>
               (AwaitingDetails, this, emit (CallYoutubeDetails (link this)) w)
           | YOUTUBE_VOD \<Rightarrow>
               (AwaitingDetails, this, emit (CallYoutubeDetails (link this)) w)
           | TWITCH_VOD \<Rightarrow>
               (let (a, w1) = alloc \<lparr> title = ''TODO'', duration = None \<rparr> w;
                    (r, this1, w2) = assign_and_return a this w1
                in (Settled r, this1, w2))
           | TWITCH_LIVESTREAM \<Rightarrow>
               (let (a, w1) = alloc \<lparr> title = ''TODO'', duration = None \<rparr> w;
                    (r, this1, w2) = assign_and_return a this w1
                in (Settled r, this1, w2))))"

text \<open>
  The rest of a suspended call, run when the awaited promise settles, on the Track and the
  store as they are then: when the promise rejected, the call throws and nothing is assigned;
  when it resolved, the object it resolved with (an object of the store) is assigned to
  \<open>this.details\<close>, whatever that field holds by now, and a copy is returned.
\<close>

definition getVideoDetails_resume ::
  "thrown + VideoDetails \<Rightarrow> Track \<Rightarrow> world \<Rightarrow> (thrown + addr) \<times> Track \<times> world" where
  "getVideoDetails_resume answer this w =
     (case answer of
        Inl err \<Rightarrow> (Inl err, this, w)
      | Inr d \<Rightarrow> (let (a, w1) = alloc d w in assign_and_return a this w1))"

text \<open>
  A call that is awaited with nothing else running on the Track in between: the suspended
  call resumes with the answer of the provider on the state it left.
\<close>

definition getVideoDetails ::
  "providers \<Rightarrow> Track \<Rightarrow> world \<Rightarrow> (thrown + addr) \<times> Track \<times> world" where
  "getVideoDetails env this w =
     (case getVideoDetails_start this w of
        (Settled r, this1, w1) \<Rightarrow> (r, this1, w1)
      | (AwaitingDetails, this1, w1) \<Rightarrow>
          getVideoDetails_resume (getYoutubeDetailsFromUrl env (link this1)) this1 w1)"

text \<open>
  The lifetime of a Track: callers start operations at any time, also while earlier calls of
  \<open>getVideoDetails\<close> are suspended at their \<open>await\<close>, and the awaited fetches settle at any
  time, each with its own answer. All suspended calls of \<open>getVideoDetails\<close> have the same rest
  to run, so the state keeps their number. \<open>createAudioResource\<close> and \<open>getAudioResource\<close> read
  only the readonly fields \<open>link\<close> and \<open>variant\<close> and write neither a field of the Track nor a
  \<open>VideoDetails\<close> object, at any of their own suspension points; each is one event here.
\<close>

record lifetime =
  the_track :: Track
  the_world :: world
  in_flight :: nat

datatype track_event =
    Call_getVideoDetails
  | Settle_details "thrown + VideoDetails"
  | Call_createAudioResource providers AudioResourceOptions
  | Call_getAudioResource providers "AudioResourceOptions option"

text \<open>An event that cannot happen (a fetch settles while no call awaits one) gives \<open>None\<close>.\<close>

fun track_event_step :: "track_event \<Rightarrow> lifetime \<Rightarrow> lifetime option" where
  "track_event_step Call_getVideoDetails s =
     (case getVideoDetails_start (the_track s) (the_world s) of
        (Settled r, this1, w1) \<Rightarrow> Some (s\<lparr> the_track := this1, the_world := w1 \<rparr>)
      | (AwaitingDetails, this1, w1) \<Rightarrow>
          Some (s\<lparr> the_track := this1, the_world := w1, in_flight := Suc (in_flight s) \<rparr>))"
| "track_event_step (Settle_details answer) s =
     (case in_flight s of
        0 \<Rightarrow> None
      | Suc n \<Rightarrow>
          (case getVideoDetails_resume answer (the_track s) (the_world s) of
             (r, this1, w1) \<Rightarrow> Some (s\<lparr> the_track := this1, the_world := w1, in_flight := n \<rparr>)))"
| "track_event_step (Call_createAudioResource env options) s =
     Some (s\<lparr> the_world := snd (createAudioResource env (the_track s) options (the_world s)) \<rparr>)"
| "track_event_step (Call_getAudioResource env options) s =
     Some (s\<lparr> the_world := snd (getAudioResource env (the_track s) options (the_world s)) \<rparr>)"

fun track_events :: "track_event list \<Rightarrow> lifetime \<Rightarrow> lifetime option" where
  "track_events [] s = Some s"
| "track_events (ev # evs) s =
     (case track_event_step ev s of None \<Rightarrow> None | Some s1 \<Rightarrow> track_events evs s1)"

text \<open>A Track on which no call is suspended.\<close>

definition at_rest :: "Track \<Rightarrow> world \<Rightarrow> lifetime" where
  "at_rest this w = \<lparr> the_track = this, the_world = w, in_flight = 0 \<rparr>"

text \<open>Counting events of a trace.\<close>

fun is_details_fetch :: "event \<Rightarrow> bool" where
  "is_details_fetch (CallYoutubeDetails l) = True"
| "is_details_fetch e = False"

fun is_playdl_call :: "event \<Rightarrow> bool" where
  "is_playdl_call (CallPlayDl l s) = True"
| "is_playdl_call e = False"

fun is_provider_call :: "event \<Rightarrow> bool" where
  "is_provider_call (CallPlayDl l s) = True"
| "is_provider_call (CallYtdlExec l) = True"
| "is_provider_call e = False"

definition fetches :: "world \<Rightarrow> nat" where
  "fetches w = length (filter is_details_fetch (trace w))"

definition playdl_calls :: "world \<Rightarrow> nat" where
  "playdl_calls w = length (filter is_playdl_call (trace w))"

definition provider_calls :: "world \<Rightarrow> nat" where
  "provider_calls w = length (filter is_provider_call (trace w))"

text \<open>The error, if any, with which \<open>tryYtdlExec\<close> rejects for an outcome of the process.\<close>

fun ytdl_error :: "ytdl_outcome \<Rightarrow> thrown option" where
  "ytdl_error (Throws err) = Some err"
| "ytdl_error NoStdout = Some (JsError None ''No stdout'')"
| "ytdl_error (FailsBeforeSpawn err) = Some err"
| "ytdl_error (Spawns out) = None"
| "ytdl_error (SpawnsThenFails out err) = None"

fun is_ResolutionError :: "thrown \<Rightarrow> bool" where
  "is_ResolutionError (ResolutionError e) = True"
| "is_ResolutionError e = False"

fun rejects_with_ResolutionError :: "thrown + AudioResource \<Rightarrow> bool" where
  "rejects_with_ResolutionError (Inl err) = is_ResolutionError err"
| "rejects_with_ResolutionError (Inr audioResource) = False"

text \<open>Two calls of \<open>getVideoDetails\<close>, the second made when the first has settled.\<close>

definition getVideoDetails_twice ::
  "providers \<Rightarrow> providers \<Rightarrow> Track \<Rightarrow> world \<Rightarrow>
     ((thrown + addr) \<times> (thrown + addr)) \<times> Track \<times> world" where
  "getVideoDetails_twice env1 env2 this w =
     (let (r1, this1, w1) = getVideoDetails env1 this w;
          (r2, this2, w2) = getVideoDetails env2 this1 w1
      in ((r1, r2), this2, w2))"

text \<open>
  After a sequence of events on a Track that was at rest: the number of metadata fetches made
  so far, and the details the Track holds, read from the store.
\<close>

definition fetches_after :: "track_event list \<Rightarrow> Track \<Rightarrow> world \<Rightarrow> nat option" where
  "fetches_after evs this w =
     map_option (\<lambda>s. fetches (the_world s)) (track_events evs (at_rest this w))"

definition details_after :: "track_event list \<Rightarrow> Track \<Rightarrow> world \<Rightarrow> VideoDetails option option" where
  "details_after evs this w =
     map_option (\<lambda>s. map_option (\<lambda>a. heap (the_world s) ! a) (details (the_track s)))
       (track_events evs (at_rest this w))"

text \<open>The object that a settled call of \<open>getVideoDetails\<close> returned, read from the store.\<close>

fun returned_details :: "(thrown + addr) \<times> Track \<times> world \<Rightarrow> VideoDetails option" where
  "returned_details (Inr r, this, w) = Some (heap w ! r)"
| "returned_details (Inl err, this, w) = None"

section \<open>Session: pause and resume\<close>

datatype SessionStatus = Idle | Loading | Playing | Paused | Stopped

record Session =
  guildKey :: string
  queue :: "Track list"
  cursor :: "nat option"
  status :: SessionStatus

text \<open>
  Modelled from the spec: the class Session is not among the sources; only a caller of
  \<open>pause\<close>, the command handler of pause.ts, is. Section 4.3: \<open>pause()\<close> is valid only from
  \<open>playing\<close>, transitions to \<open>paused\<close> and returns whether the transition occurred.
\<close>

definition pause :: "Session \<Rightarrow> bool \<times> Session" where
  "pause s = (if status s = Playing then (True, s\<lparr> status := Paused \<rparr>) else (False, s))"

text \<open>
  Modelled from the spec: the class Session is not among the sources. Section 4.3:
  \<open>resume()\<close> is valid only from \<open>paused\<close>, transitions to \<open>playing\<close> and returns whether
  it occurred.
\<close>

definition resume :: "Session \<Rightarrow> bool \<times> Session" where
  "resume s = (if status s = Paused then (True, s\<lparr> status := Playing \<rparr>) else (False, s))"

text \<open>
  The command handler of pause.ts, given what \<open>sessions.get(guild)\<close> found: the reply it
  edits in, and the session afterwards.
\<close>

definition pause_runCommand :: "Session option \<Rightarrow> string \<times> Session option" where
  "pause_runCommand found =
     (case found of
        None \<Rightarrow> (''Session does not exist.'', None)
      | Some session \<Rightarrow>
          (let (success, session1) = pause session
           in (if success then ''Paused.'' else ''Could not pause.'', Some session1)))"

section \<open>shuffleArray (utils.ts)\<close>











section \<open>Concrete inputs\<close>

definition failing_providers :: providers where
  "failing_providers =
     \<lparr> play_stream = (\<lambda>l s. Inl (JsError None ''play-dl: sign in to confirm your age'')),
       ytdlExec = (\<lambda>l. FailsBeforeSpawn (JsError (Some ''ENOENT'') ''spawn yt-dlp ENOENT'')),
       getYoutubeDetailsFromUrl = (\<lambda>l. Inl (JsError None ''quotaExceeded'')) \<rparr>"

definition late_failing_providers :: providers where
  "late_failing_providers =
     \<lparr> play_stream = (\<lambda>l s. Inl (JsError None ''play-dl: sign in to confirm your age'')),
       ytdlExec =
         (\<lambda>l. SpawnsThenFails 7 (JsError None ''ERROR: unable to download video data'')),
       getYoutubeDetailsFromUrl = (\<lambda>l. Inl (JsError None ''quotaExceeded'')) \<rparr>"

definition fallback_providers :: providers where
  "fallback_providers =
     \<lparr> play_stream = (\<lambda>l s. Inl (JsError None ''play-dl: sign in to confirm your age'')),
       ytdlExec = (\<lambda>l. Spawns 7),
       getYoutubeDetailsFromUrl =
         (\<lambda>l. Inr \<lparr> title = ''Some video'', duration = Some (Num 212) \<rparr>) \<rparr>"

definition youtube_track :: Track where
  "youtube_track =
     \<lparr> link = ''https://www.youtube.com/watch?v=abc'', variant = YOUTUBE_VOD,
       sourceLink = None, details = None \<rparr>"

definition live_track :: Track where
  "live_track =
     \<lparr> link = ''https://www.youtube.com/watch?v=live'', variant = YOUTUBE_LIVESTREAM,
       sourceLink = None, details = None \<rparr>"

definition twitch_track :: Track where
  "twitch_track =
     \<lparr> link = ''https://www.twitch.tv/videos/1'', variant = TWITCH_VOD,
       sourceLink = None, details = None \<rparr>"

definition double_speed :: AudioResourceOptions where
  "double_speed = \<lparr> seek = None, speed = Some (Num 2) \<rparr>"

definition zero_options :: AudioResourceOptions where
  "zero_options = \<lparr> seek = Some (Num 0), speed = Some (Num 0) \<rparr>"

definition fractional_seek :: AudioResourceOptions where
  "fractional_seek = \<lparr> seek = Some (Num (3 / 2)), speed = None \<rparr>"


definition empty_world :: world where
  "empty_world = \<lparr> heap = [], trace = [] \<rparr>"

definition titled_world :: world where
  "titled_world =
     \<lparr> heap = [\<lparr> title = ''Speedrun marathon'', duration = None \<rparr>], trace = [] \<rparr>"

definition titled_track :: Track where
  "titled_track = twitch_track\<lparr> details := Some 0 \<rparr>"

definition some_events :: "track_event list" where
  "some_events =
     [Call_getVideoDetails,
      Call_createAudioResource fallback_providers double_speed,
      Call_getVideoDetails,
      Call_getAudioResource failing_providers None]"

text \<open>
  Two calls of \<open>getVideoDetails\<close> that overlap: the second starts before the fetch of the
  first has settled. The two fetches then settle with the titles the stream had at the time.
\<close>

definition overlapping_calls :: "track_event list" where
  "overlapping_calls =
     [Call_getVideoDetails,
      Call_getVideoDetails,
      Settle_details (Inr \<lparr> title = ''Live: warm-up'', duration = None \<rparr>)]"

definition late_settlement :: track_event where
  "late_settlement = Settle_details (Inr \<lparr> title = ''Live: main event'', duration = None \<rparr>)"

definition playing_session :: Session where
  "playing_session =
     \<lparr> guildKey = ''guild-1'', queue = [youtube_track], cursor = Some 0, status = Playing \<rparr>"

definition idle_session :: Session where
  "idle_session = \<lparr> guildKey = ''guild-1'', queue = [], cursor = None, status = Idle \<rparr>"

section \<open>Properties of createAudioResource\<close>

lemma provider_calls_emit:
  "provider_calls (emit e w) = provider_calls w + (if is_provider_call e then 1 else 0)"
  by (simp add: provider_calls_def emit_def)

lemma playdl_calls_emit:
  "playdl_calls (emit e w) = playdl_calls w + (if is_playdl_call e then 1 else 0)"
  by (simp add: playdl_calls_def emit_def)

lemma playdl_calls_tryYtdlExec:
  "playdl_calls (snd (tryYtdlExec env this options w)) = playdl_calls w"
  by (simp add: tryYtdlExec_def Let_def playdl_calls_emit split: ytdl_outcome.split)

lemma provider_calls_tryYtdlExec:
  "provider_calls (snd (tryYtdlExec env this options w)) = provider_calls w + 1"
  by (simp add: tryYtdlExec_def Let_def provider_calls_emit split: ytdl_outcome.split)

lemma tryYtdlExec_error:
  "ytdl_error (ytdlExec env (link this)) = Some e \<Longrightarrow>
     fst (tryYtdlExec env this options w) = Inl e"
  by (auto simp: tryYtdlExec_def Let_def split: ytdl_outcome.splits)

lemma tryYtdlExec_Spawns:
  "ytdlExec env (link this) = Spawns out \<Longrightarrow>
     tryYtdlExec env this options w =
       (Inr \<lparr> input = FromFfmpegMp3 out (ffmpeg_filters options) (ffmpeg_start options),
              inputType = None, metadata = this \<rparr>,
        emit (CallYtdlExec (link this)) w)"
  by (simp add: tryYtdlExec_def)

lemma tryPlayDl_fails:
  "play_stream env (link this) (playdl_seek options) = Inl e1 \<Longrightarrow>
     tryPlayDl env this options w =
       (Inl e1, emit (CallPlayDl (link this) (playdl_seek options)) w)"
  by (simp add: tryPlayDl_def)

lemma createAudioResource_skips_playdl:
  "truthy_opt (speed options) \<Longrightarrow>
     createAudioResource env this options w = tryYtdlExec env this options w"
  by (simp add: createAudioResource_def)

lemma createAudioResource_not_youtube:
  "\<not> youtube_case (variant this) \<Longrightarrow>
     createAudioResource env this options w = tryYtdlExec env this options w"
  by (simp add: createAudioResource_def)

lemma createAudioResource_playdl_fails:
  assumes "youtube_case (variant this)" and "\<not> truthy_opt (speed options)"
    and "play_stream env (link this) (playdl_seek options) = Inl e1"
  shows "createAudioResource env this options w =
           tryYtdlExec env this options
             (emit (LogPlayDlError e1) (emit (CallPlayDl (link this) (playdl_seek options)) w))"
  using assms by (simp add: createAudioResource_def tryPlayDl_fails)

lemma createAudioResource_falsy_cong:
  assumes "playdl_seek o1 = playdl_seek o2" and "ffmpeg_start o1 = ffmpeg_start o2"
    and "ffmpeg_filters o1 = ffmpeg_filters o2"
    and "truthy_opt (speed o1) = truthy_opt (speed o2)"
  shows "createAudioResource env this o1 w = createAudioResource env this o2 w"
proof -
  have p: "tryPlayDl env this o1 = tryPlayDl env this o2"
    by (rule ext) (simp add: tryPlayDl_def assms(1))
  have y: "tryYtdlExec env this o1 = tryYtdlExec env this o2"
    by (rule ext) (simp add: tryYtdlExec_def Let_def assms(2,3) split: ytdl_outcome.split)
  show ?thesis
    by (simp add: createAudioResource_def p y assms(4) split: prod.split sum.split)
qed

lemma tryYtdlExec_rejects_iff:
  "fst (tryYtdlExec env this options w) = Inl e \<longleftrightarrow>
     ytdl_error (ytdlExec env (link this)) = Some e"
  by (cases "ytdlExec env (link this)") (simp_all add: tryYtdlExec_def Let_def)

lemma tryYtdlExec_trace_grows:
  "set (trace w) \<subseteq> set (trace (snd (tryYtdlExec env this options w)))"
  by (cases "ytdlExec env (link this)") (auto simp: tryYtdlExec_def Let_def emit_def)

lemma tryYtdlExec_SpawnsThenFails:
  "ytdlExec env (link this) = SpawnsThenFails out err \<Longrightarrow>
     tryYtdlExec env this options w =
       (Inr \<lparr> input = FromFfmpegMp3 out (ffmpeg_filters options) (ffmpeg_start options),
              inputType = None, metadata = this \<rparr>,
        if premature_close err then emit (CallYtdlExec (link this)) w
        else emit (LogError err) (emit (CallYtdlExec (link this)) w))"
  by (simp add: tryYtdlExec_def)

lemma createAudioResource_playdl_succeeds:
  assumes "youtube_case (variant this)" and "\<not> truthy_opt (speed options)"
    and "play_stream env (link this) (playdl_seek options) = Inr source"
  shows "fst (createAudioResource env this options w) =
           Inr \<lparr> input = FromPlayDl (stream source), inputType = Some (stream_type source),
                  metadata = this \<rparr>"
  using assms by (simp add: createAudioResource_def tryPlayDl_def)

text \<open>
  C1 (as amended). The promise of \<open>createAudioResource\<close> rejects exactly when play-dl, if
  it is attempted (YouTube variant and falsy speed), fails and ytdl-exec fails before its
  \<open>spawn\<close> event (the call throws, the process has no stdout, or the process promise rejects
  before \<open>spawn\<close>); the rejection is then the error of ytdl-exec, the last provider, itself:
  nothing wraps or converts it. The error of play-dl is caught and logged. When the
  ytdl-exec process fails after \<open>spawn\<close>, the promise is fulfilled with the ffmpeg resource
  all the same and the error is logged, unless it is a premature close.
\<close>

theorem createAudioResource_rejects_raw_last_error:
  "(fst (createAudioResource env this options w) = Inl e \<longleftrightarrow>
      ytdl_error (ytdlExec env (link this)) = Some e
      \<and> (youtube_case (variant this) \<and> \<not> truthy_opt (speed options) \<longrightarrow>
           isl (play_stream env (link this) (playdl_seek options))))
   \<and> (youtube_case (variant this) \<and> \<not> truthy_opt (speed options)
        \<and> play_stream env (link this) (playdl_seek options) = Inl e1 \<longrightarrow>
        LogPlayDlError e1 \<in> set (trace (snd (createAudioResource env this options w))))
   \<and> (ytdlExec env (link this) = SpawnsThenFails out err
        \<and> (youtube_case (variant this) \<and> \<not> truthy_opt (speed options) \<longrightarrow>
             isl (play_stream env (link this) (playdl_seek options))) \<longrightarrow>
        fst (createAudioResource env this options w) =
          Inr \<lparr> input = FromFfmpegMp3 out (ffmpeg_filters options) (ffmpeg_start options),
                 inputType = None, metadata = this \<rparr>
        \<and> (LogError err \<in> set (trace (snd (createAudioResource env this options w)))
               \<longleftrightarrow> \<not> premature_close err \<or> LogError err \<in> set (trace w)))"
proof (cases "youtube_case (variant this) \<and> \<not> truthy_opt (speed options)")
  case False
  then have c: "createAudioResource env this options w = tryYtdlExec env this options w"
    by (auto simp: createAudioResource_skips_playdl createAudioResource_not_youtube)
  show ?thesis
    using False unfolding c
    by (auto simp: tryYtdlExec_rejects_iff tryYtdlExec_SpawnsThenFails emit_def)
next
  case True
  show ?thesis
  proof (cases "play_stream env (link this) (playdl_seek options)")
    case (Inr source)
    with True have "fst (createAudioResource env this options w) =
        Inr \<lparr> input = FromPlayDl (stream source), inputType = Some (stream_type source),
               metadata = this \<rparr>"
      by (simp add: createAudioResource_playdl_succeeds)
    then show ?thesis using True Inr by simp
  next
    case (Inl e0)
    with True have c: "createAudioResource env this options w =
        tryYtdlExec env this options
          (emit (LogPlayDlError e0) (emit (CallPlayDl (link this) (playdl_seek options)) w))"
      by (simp add: createAudioResource_playdl_fails)
    have l: "LogPlayDlError e0 \<in> set (trace (snd (createAudioResource env this options w)))"
      unfolding c using tryYtdlExec_trace_grows by (force simp: emit_def)
    show ?thesis
      using True Inl l unfolding c
      by (auto simp: tryYtdlExec_rejects_iff tryYtdlExec_SpawnsThenFails emit_def)
  qed
qed

theorem createAudioResource_rejects_raw_last_error_witness:
  "ytdl_error (ytdlExec failing_providers (link youtube_track))
     = Some (JsError (Some ''ENOENT'') ''spawn yt-dlp ENOENT'')
   \<and> youtube_case (variant youtube_track) \<and> \<not> truthy_opt (speed no_options)
   \<and> play_stream failing_providers (link youtube_track) (playdl_seek no_options)
       = Inl (JsError None ''play-dl: sign in to confirm your age'')
   \<and> fst (createAudioResource failing_providers youtube_track no_options empty_world)
     = Inl (JsError (Some ''ENOENT'') ''spawn yt-dlp ENOENT'')
   \<and> LogPlayDlError (JsError None ''play-dl: sign in to confirm your age'')
       \<in> set (trace (snd (createAudioResource failing_providers youtube_track no_options
             empty_world)))
   \<and> ytdlExec late_failing_providers (link youtube_track)
       = SpawnsThenFails 7 (JsError None ''ERROR: unable to download video data'')
   \<and> fst (createAudioResource late_failing_providers youtube_track no_options empty_world)
     = Inr \<lparr> input = FromFfmpegMp3 7 (ffmpeg_filters no_options) (ffmpeg_start no_options),
            inputType = None, metadata = youtube_track \<rparr>"
proof -
  have h1: "ytdl_error (ytdlExec failing_providers (link youtube_track))
     = Some (JsError (Some ''ENOENT'') ''spawn yt-dlp ENOENT'')"
    by (simp add: failing_providers_def)
  have h2: "youtube_case (variant youtube_track) \<and> \<not> truthy_opt (speed no_options)"
    by (simp add: youtube_track_def no_options_def)
  have h3: "play_stream failing_providers (link youtube_track) (playdl_seek no_options)
       = Inl (JsError None ''play-dl: sign in to confirm your age'')"
    by (simp add: failing_providers_def)
  have h4: "ytdlExec late_failing_providers (link youtube_track)
       = SpawnsThenFails 7 (JsError None ''ERROR: unable to download video data'')"
    by (simp add: late_failing_providers_def)
  have h5: "play_stream late_failing_providers (link youtube_track) (playdl_seek no_options)
       = Inl (JsError None ''play-dl: sign in to confirm your age'')"
    by (simp add: late_failing_providers_def)
  note t1 = createAudioResource_rejects_raw_last_error
    [of failing_providers youtube_track no_options empty_world
        "JsError (Some ''ENOENT'') ''spawn yt-dlp ENOENT''"
        "JsError None ''play-dl: sign in to confirm your age''" 7
        "JsError None ''ERROR: unable to download video data''"]
  note t2 = createAudioResource_rejects_raw_last_error
    [of late_failing_providers youtube_track no_options empty_world
        "JsError (Some ''ENOENT'') ''spawn yt-dlp ENOENT''"
        "JsError None ''play-dl: sign in to confirm your age''" 7
        "JsError None ''ERROR: unable to download video data''"]
  have i3: "isl (play_stream failing_providers (link youtube_track) (playdl_seek no_options))"
    unfolding h3 by simp
  have i5: "isl (play_stream late_failing_providers (link youtube_track) (playdl_seek no_options))"
    unfolding h5 by simp
  from t1 h1 h2 i3 have c1:
    "fst (createAudioResource failing_providers youtube_track no_options empty_world)
       = Inl (JsError (Some ''ENOENT'') ''spawn yt-dlp ENOENT'')"
    by blast
  from t1 h2 h3 have c2: "LogPlayDlError (JsError None ''play-dl: sign in to confirm your age'')
       \<in> set (trace (snd (createAudioResource failing_providers youtube_track no_options
             empty_world)))"
    by blast
  from t2 h4 i5 have c3:
    "fst (createAudioResource late_failing_providers youtube_track no_options empty_world)
     = Inr \<lparr> input = FromFfmpegMp3 7 (ffmpeg_filters no_options) (ffmpeg_start no_options),
            inputType = None, metadata = youtube_track \<rparr>"
    by blast
  show ?thesis using h1 h2 h3 h4 c1 c2 c3 by blast
qed

text \<open>
  C1 as stated fails: with both providers failing, the rejection is the raw error of
  ytdl-exec, not a \<open>ResolutionError\<close>.
\<close>

theorem createAudioResource_no_ResolutionError_counterexample:
  "fst (createAudioResource failing_providers youtube_track no_options empty_world)
     = Inl (JsError (Some ''ENOENT'') ''spawn yt-dlp ENOENT'')
   \<and> \<not> rejects_with_ResolutionError
         (fst (createAudioResource failing_providers youtube_track no_options empty_world))"
  by (simp add: createAudioResource_def tryPlayDl_def tryYtdlExec_def failing_providers_def
        youtube_track_def no_options_def playdl_seek_def emit_def)

text \<open>
  C2. For a Track of a YouTube variant and a nonzero speed (a number other than 0; \<open>NaN\<close> is
  not one), play-dl is never called: resolution is exactly the ytdl-exec attempt, and when the
  process spawns the resource is the ffmpeg stream with the filter \<open>atempo=speed\<close>.
\<close>

theorem createAudioResource_speed_skips_playdl:
  assumes "youtube_case (variant this)" and "speed options = Some s"
    and "s \<noteq> Num 0" and "s \<noteq> NaN"
  shows "createAudioResource env this options w = tryYtdlExec env this options w
     \<and> playdl_calls (snd (createAudioResource env this options w)) = playdl_calls w
     \<and> (\<forall>out. ytdlExec env (link this) = Spawns out \<longrightarrow>
           fst (createAudioResource env this options w) =
             Inr \<lparr> input = FromFfmpegMp3 out [Atempo s] (ffmpeg_start options),
                    inputType = None, metadata = this \<rparr>)"
proof -
  have t: "truthy s" using assms(3,4) by (cases s) auto
  then have f: "ffmpeg_filters options = [Atempo s]"
    by (simp add: ffmpeg_filters_def assms(2))
  have c: "createAudioResource env this options w = tryYtdlExec env this options w"
    using t by (simp add: createAudioResource_skips_playdl assms(2))
  show ?thesis
    by (simp add: c playdl_calls_tryYtdlExec tryYtdlExec_Spawns f)
qed

theorem createAudioResource_speed_skips_playdl_witness:
  "youtube_case (variant youtube_track)
   \<and> speed double_speed = Some (Num 2) \<and> Num 2 \<noteq> Num 0 \<and> Num 2 \<noteq> NaN
   \<and> playdl_calls (snd (createAudioResource fallback_providers youtube_track double_speed
         empty_world)) = playdl_calls empty_world
   \<and> fst (createAudioResource fallback_providers youtube_track double_speed empty_world) =
       Inr \<lparr> input = FromFfmpegMp3 7 [Atempo (Num 2)] None,
              inputType = None, metadata = youtube_track \<rparr>"
proof -
  have h1: "youtube_case (variant youtube_track)" by (simp add: youtube_track_def)
  have h2: "speed double_speed = Some (Num 2)" by (simp add: double_speed_def)
  have h3: "Num 2 \<noteq> Num 0" and h4: "Num 2 \<noteq> NaN" by simp_all
  have h5: "ytdlExec fallback_providers (link youtube_track) = Spawns 7"
    by (simp add: fallback_providers_def)
  have h6: "ffmpeg_start double_speed = None" by (simp add: ffmpeg_start_def double_speed_def)
  note t = createAudioResource_speed_skips_playdl
    [OF h1 h2 h3 h4, of fallback_providers empty_world]
  from t have c2: "playdl_calls (snd (createAudioResource fallback_providers youtube_track
      double_speed empty_world)) = playdl_calls empty_world"
    by blast
  from t h5 have c3: "fst (createAudioResource fallback_providers youtube_track double_speed
      empty_world) = Inr \<lparr> input = FromFfmpegMp3 7 [Atempo (Num 2)] (ffmpeg_start double_speed),
         inputType = None, metadata = youtube_track \<rparr>"
    by blast
  show ?thesis using h1 h2 h3 h4 c2 c3 unfolding h6 by blast
qed

text \<open>
  C3. For a Track of a YouTube variant resolved without a speed (any falsy speed), when
  play-dl fails its error is logged and not thrown, and ytdl-exec is tried next; when that
  process spawns, the result is the resource made from it and no error; exactly two
  providers, the length of the chain, have been called.
\<close>

theorem createAudioResource_fallback_to_ytdl:
  assumes "youtube_case (variant this)" and "\<not> truthy_opt (speed options)"
    and "play_stream env (link this) (playdl_seek options) = Inl e1"
  shows "createAudioResource env this options w =
           tryYtdlExec env this options
             (emit (LogPlayDlError e1) (emit (CallPlayDl (link this) (playdl_seek options)) w))
     \<and> (\<forall>out. ytdlExec env (link this) = Spawns out \<longrightarrow>
           createAudioResource env this options w =
             (Inr \<lparr> input = FromFfmpegMp3 out (ffmpeg_filters options) (ffmpeg_start options),
                    inputType = None, metadata = this \<rparr>,
              w\<lparr> trace := trace w @
                    [CallPlayDl (link this) (playdl_seek options), LogPlayDlError e1,
                     CallYtdlExec (link this)] \<rparr>))
     \<and> provider_calls (snd (createAudioResource env this options w)) = provider_calls w + 2"
proof -
  note c = createAudioResource_playdl_fails [OF assms]
  show ?thesis
    by (simp add: c tryYtdlExec_Spawns provider_calls_tryYtdlExec provider_calls_emit)
       (simp add: emit_def)
qed

theorem createAudioResource_fallback_to_ytdl_witness:
  "youtube_case (variant youtube_track) \<and> \<not> truthy_opt (speed no_options)
   \<and> play_stream fallback_providers (link youtube_track) (playdl_seek no_options)
       = Inl (JsError None ''play-dl: sign in to confirm your age'')
   \<and> createAudioResource fallback_providers youtube_track no_options empty_world =
       (Inr \<lparr> input = FromFfmpegMp3 7 [] None, inputType = None, metadata = youtube_track \<rparr>,
        \<lparr> heap = [],
          trace = [CallPlayDl (link youtube_track) None,
                   LogPlayDlError (JsError None ''play-dl: sign in to confirm your age''),
                   CallYtdlExec (link youtube_track)] \<rparr>)"
proof -
  have h1: "youtube_case (variant youtube_track)" by (simp add: youtube_track_def)
  have h2: "\<not> truthy_opt (speed no_options)" by (simp add: no_options_def)
  have h3: "play_stream fallback_providers (link youtube_track) (playdl_seek no_options)
       = Inl (JsError None ''play-dl: sign in to confirm your age'')"
    by (simp add: fallback_providers_def)
  have h4: "ytdlExec fallback_providers (link youtube_track) = Spawns 7"
    by (simp add: fallback_providers_def)
  have e: "playdl_seek no_options = None" "ffmpeg_filters no_options = []"
    "ffmpeg_start no_options = None"
    by (simp_all add: no_options_def playdl_seek_def ffmpeg_filters_def ffmpeg_start_def)
  have w: "empty_world\<lparr> trace := trace empty_world @
      [CallPlayDl (link youtube_track) None,
       LogPlayDlError (JsError None ''play-dl: sign in to confirm your age''),
       CallYtdlExec (link youtube_track)] \<rparr> =
     \<lparr> heap = [],
       trace = [CallPlayDl (link youtube_track) None,
                LogPlayDlError (JsError None ''play-dl: sign in to confirm your age''),
                CallYtdlExec (link youtube_track)] \<rparr>"
    by (simp add: empty_world_def)
  note t = createAudioResource_fallback_to_ytdl [OF h1 h2 h3, of empty_world]
  from t h4 have "createAudioResource fallback_providers youtube_track no_options empty_world =
      (Inr \<lparr> input = FromFfmpegMp3 7 (ffmpeg_filters no_options) (ffmpeg_start no_options),
             inputType = None, metadata = youtube_track \<rparr>,
       empty_world\<lparr> trace := trace empty_world @
         [CallPlayDl (link youtube_track) (playdl_seek no_options),
          LogPlayDlError (JsError None ''play-dl: sign in to confirm your age''),
          CallYtdlExec (link youtube_track)] \<rparr>)"
    by blast
  then show ?thesis using h1 h2 h3 unfolding e w by blast
qed

text \<open>
  C9. A seek of 0 and a speed of 0 are treated as absent. Whatever the other option is,
  \<open>createAudioResource\<close> does exactly what it does when the option is omitted: with seek 0 no
  seek option reaches \<open>play.stream\<close> and no start time is set on the ffmpeg stream; with
  speed 0 no atempo filter is set and, for a YouTube variant, play-dl is still called.
\<close>

theorem createAudioResource_zero_is_absent:
  "createAudioResource env this (options\<lparr> seek := Some (Num 0) \<rparr>) w
     = createAudioResource env this (options\<lparr> seek := None \<rparr>) w
   \<and> createAudioResource env this (options\<lparr> speed := Some (Num 0) \<rparr>) w
     = createAudioResource env this (options\<lparr> speed := None \<rparr>) w
   \<and> playdl_seek (options\<lparr> seek := Some (Num 0) \<rparr>) = None
   \<and> ffmpeg_start (options\<lparr> seek := Some (Num 0) \<rparr>) = None
   \<and> ffmpeg_filters (options\<lparr> speed := Some (Num 0) \<rparr>) = []
   \<and> (youtube_case (variant this) \<longrightarrow>
        playdl_calls (snd (createAudioResource env this (options\<lparr> speed := Some (Num 0) \<rparr>) w))
          = playdl_calls w + 1)"
proof -
  have a: "createAudioResource env this (options\<lparr> seek := Some (Num 0) \<rparr>) w
     = createAudioResource env this (options\<lparr> seek := None \<rparr>) w"
    by (rule createAudioResource_falsy_cong)
       (simp_all add: playdl_seek_def ffmpeg_start_def ffmpeg_filters_def)
  have b: "createAudioResource env this (options\<lparr> speed := Some (Num 0) \<rparr>) w
     = createAudioResource env this (options\<lparr> speed := None \<rparr>) w"
    by (rule createAudioResource_falsy_cong)
       (simp_all add: playdl_seek_def ffmpeg_start_def ffmpeg_filters_def)
  have c: "playdl_calls (snd (createAudioResource env this (options\<lparr> speed := Some (Num 0) \<rparr>) w))
          = playdl_calls w + 1" if "youtube_case (variant this)"
    using that
    by (simp add: createAudioResource_def tryPlayDl_def Let_def playdl_calls_tryYtdlExec
          playdl_calls_emit split: sum.split)
  show ?thesis
    using a b c by (simp add: playdl_seek_def ffmpeg_start_def ffmpeg_filters_def)
qed

theorem createAudioResource_zero_is_absent_witness:
  "youtube_case (variant youtube_track)
   \<and> playdl_calls (snd (createAudioResource fallback_providers youtube_track
         (zero_options\<lparr> speed := Some (Num 0) \<rparr>) empty_world))
       = playdl_calls empty_world + 1
   \<and> createAudioResource fallback_providers youtube_track
         (zero_options\<lparr> seek := Some (Num 0) \<rparr>) empty_world
       = createAudioResource fallback_providers youtube_track
         (zero_options\<lparr> seek := None \<rparr>) empty_world"
proof -
  have h: "youtube_case (variant youtube_track)" by (simp add: youtube_track_def)
  note t = createAudioResource_zero_is_absent
    [of fallback_providers youtube_track zero_options empty_world]
  from t h show ?thesis by blast
qed

text \<open>
  C10. A truthy seek \<open>s\<close> reaches the two providers differently: \<open>tryPlayDl\<close> passes \<open>s\<close> itself
  to \<open>play.stream\<close>, \<open>tryYtdlExec\<close> sets the start time \<open>Math.ceil(s)\<close> on the ffmpeg stream.
  For the seek 1.5 the two are 1.5 and 2.
\<close>

theorem seek_rounded_up_only_for_ytdl:
  assumes "seek options = Some s" and "truthy s"
  shows "playdl_seek options = Some s
     \<and> snd (tryPlayDl env this options w) = emit (CallPlayDl (link this) (Some s)) w
     \<and> ffmpeg_start options = Some (Math_ceil s)
     \<and> (\<forall>out. ytdlExec env (link this) = Spawns out \<longrightarrow>
          fst (tryYtdlExec env this options w) =
            Inr \<lparr> input = FromFfmpegMp3 out (ffmpeg_filters options) (Some (Math_ceil s)),
                   inputType = None, metadata = this \<rparr>)
     \<and> playdl_seek fractional_seek = Some (Num (3 / 2))
     \<and> ffmpeg_start fractional_seek = Some (Num 2)"
proof -
  have p: "playdl_seek options = Some s" and f: "ffmpeg_start options = Some (Math_ceil s)"
    using assms by (simp_all add: playdl_seek_def ffmpeg_start_def)
  have t: "snd (tryPlayDl env this options w) = emit (CallPlayDl (link this) (Some s)) w"
    by (simp add: tryPlayDl_def Let_def p split: sum.split)
  have c: "playdl_seek fractional_seek = Some (Num (3 / 2))"
    "ffmpeg_start fractional_seek = Some (Num 2)"
    by (simp_all add: playdl_seek_def ffmpeg_start_def fractional_seek_def)
  show ?thesis
    using p f t c by (simp add: tryYtdlExec_Spawns)
qed

theorem seek_rounded_up_only_for_ytdl_witness:
  "seek fractional_seek = Some (Num (3 / 2)) \<and> truthy (Num (3 / 2))
   \<and> snd (tryPlayDl fallback_providers youtube_track fractional_seek empty_world)
       = emit (CallPlayDl (link youtube_track) (Some (Num (3 / 2)))) empty_world
   \<and> fst (tryYtdlExec fallback_providers youtube_track fractional_seek empty_world) =
       Inr \<lparr> input = FromFfmpegMp3 7 [] (Some (Num 2)), inputType = None,
              metadata = youtube_track \<rparr>"
proof -
  have h1: "seek fractional_seek = Some (Num (3 / 2))" by (simp add: fractional_seek_def)
  have h2: "truthy (Num (3 / 2))" by simp
  have h3: "ytdlExec fallback_providers (link youtube_track) = Spawns 7"
    by (simp add: fallback_providers_def)
  have e: "ffmpeg_filters fractional_seek = []" "Math_ceil (Num (3 / 2)) = Num 2"
    by (simp_all add: ffmpeg_filters_def fractional_seek_def)
  note t = seek_rounded_up_only_for_ytdl [OF h1 h2, of fallback_providers youtube_track empty_world]
  from t have c1: "snd (tryPlayDl fallback_providers youtube_track fractional_seek empty_world)
       = emit (CallPlayDl (link youtube_track) (Some (Num (3 / 2)))) empty_world"
    by blast
  from t h3 have c2: "fst (tryYtdlExec fallback_providers youtube_track fractional_seek empty_world) =
       Inr \<lparr> input = FromFfmpegMp3 7 (ffmpeg_filters fractional_seek)
                (Some (Math_ceil (Num (3 / 2)))),
              inputType = None, metadata = youtube_track \<rparr>"
    by blast
  show ?thesis using h1 h2 c1 c2 unfolding e by blast
qed

section \<open>Properties of getVideoDetails\<close>

lemma fetches_emit:
  "fetches (emit e w) = fetches w + (if is_details_fetch e then 1 else 0)"
  by (simp add: fetches_def emit_def)

lemma fetches_heap_update:
  "fetches (w\<lparr> heap := h \<rparr>) = fetches w"
  by (simp add: fetches_def)

lemma getVideoDetails_cached:
  "details this = Some a \<Longrightarrow>
     getVideoDetails env this w =
       (Inr (length (heap w)), this, w\<lparr> heap := heap w @ [heap w ! a] \<rparr>)"
  by (simp add: getVideoDetails_def getVideoDetails_start_def spread_def alloc_def)

lemma assign_and_return_fresh:
  "assign_and_return (length (heap w)) this (w\<lparr> heap := heap w @ [d] \<rparr>) =
     (Inr (Suc (length (heap w))), this\<lparr> details := Some (length (heap w)) \<rparr>,
      w\<lparr> heap := heap w @ [d, d] \<rparr>)"
  by (simp add: assign_and_return_def spread_def alloc_def)

lemma getVideoDetails_fetch_ok:
  assumes "details this = None" and "youtube_case (variant this)"
    and "getYoutubeDetailsFromUrl env (link this) = Inr d"
  shows "getVideoDetails env this w =
       (Inr (Suc (length (heap w))), this\<lparr> details := Some (length (heap w)) \<rparr>,
        emit (CallYoutubeDetails (link this)) w\<lparr> heap := heap w @ [d, d] \<rparr>)"
proof -
  let ?w1 = "emit (CallYoutubeDetails (link this)) w"
  have h: "heap ?w1 = heap w" by (simp add: emit_def)
  have "getVideoDetails env this w =
      assign_and_return (length (heap ?w1)) this (?w1\<lparr> heap := heap ?w1 @ [d] \<rparr>)"
    using assms
    by (cases "variant this")
       (simp_all add: getVideoDetails_def getVideoDetails_start_def getVideoDetails_resume_def
          alloc_def)
  then show ?thesis
    unfolding assign_and_return_fresh by (simp add: h)
qed

lemma getVideoDetails_fetch_fails:
  assumes "details this = None" and "youtube_case (variant this)"
    and "getYoutubeDetailsFromUrl env (link this) = Inl err"
  shows "getVideoDetails env this w = (Inl err, this, emit (CallYoutubeDetails (link this)) w)"
  using assms
  by (cases "variant this")
     (simp_all add: getVideoDetails_def getVideoDetails_start_def getVideoDetails_resume_def)

lemma getVideoDetails_no_lookup:
  assumes "details this = None" and "\<not> youtube_case (variant this)"
  shows "getVideoDetails env this w =
       (Inr (Suc (length (heap w))), this\<lparr> details := Some (length (heap w)) \<rparr>,
        w\<lparr> heap := heap w @ [\<lparr> title = ''TODO'', duration = None \<rparr>,
                               \<lparr> title = ''TODO'', duration = None \<rparr>] \<rparr>)"
proof -
  have "getVideoDetails env this w =
      assign_and_return (length (heap w)) this
        (w\<lparr> heap := heap w @ [\<lparr> title = ''TODO'', duration = None \<rparr>] \<rparr>)"
    using assms
    by (cases "variant this")
       (simp_all add: getVideoDetails_def getVideoDetails_start_def alloc_def
          split: prod.split)
  then show ?thesis
    unfolding assign_and_return_fresh .
qed

text \<open>
  Every settled call: the identity fields stay, the store only grows, populated details stay,
  and a returned object is a new one with the content of the cached one.
\<close>

lemma getVideoDetails_effect:
  assumes "getVideoDetails env this w = (r, this', w')"
  shows "link this' = link this \<and> variant this' = variant this
     \<and> sourceLink this' = sourceLink this
     \<and> (\<exists>zs. heap w' = heap w @ zs)
     \<and> (\<forall>a. details this = Some a \<longrightarrow> details this' = Some a)"
proof (cases "details this")
  case (Some a)
  from assms show ?thesis
    unfolding getVideoDetails_cached [OF Some] using Some by auto
next
  case None
  show ?thesis
  proof (cases "youtube_case (variant this)")
    case False
    from assms show ?thesis
      unfolding getVideoDetails_no_lookup [OF None False] using None by auto
  next
    case True
    show ?thesis
    proof (cases "getYoutubeDetailsFromUrl env (link this)")
      case (Inl err)
      from assms show ?thesis
        unfolding getVideoDetails_fetch_fails [OF None True Inl] using None
        by (auto simp: emit_def)
    next
      case (Inr d)
      from assms show ?thesis
        unfolding getVideoDetails_fetch_ok [OF None True Inr] using None
        by (auto simp: emit_def)
    qed
  qed
qed

lemma getVideoDetails_returns_copy:
  assumes "track_ok this w" and "getVideoDetails env this w = (Inr r, this', w')"
  shows "\<exists>c. details this' = Some c \<and> c \<noteq> r \<and> c < length (heap w') \<and> r < length (heap w')
     \<and> heap w' ! r = heap w' ! c"
proof (cases "details this")
  case (Some a)
  then have "a < length (heap w)" using assms(1) by (simp add: track_ok_def)
  with assms(2) show ?thesis
    unfolding getVideoDetails_cached [OF Some] using Some by (auto simp: nth_append)
next
  case None
  show ?thesis
  proof (cases "youtube_case (variant this)")
    case False
    from assms(2) show ?thesis
      unfolding getVideoDetails_no_lookup [OF None False] by (auto simp: nth_append)
  next
    case True
    show ?thesis
    proof (cases "getYoutubeDetailsFromUrl env (link this)")
      case (Inl err)
      from assms(2) show ?thesis
        unfolding getVideoDetails_fetch_fails [OF None True Inl] by simp
    next
      case (Inr d)
      from assms(2) show ?thesis
        unfolding getVideoDetails_fetch_ok [OF None True Inr]
        by (auto simp: nth_append emit_def)
    qed
  qed
qed

lemma mutate_other:
  "c \<noteq> r \<Longrightarrow> heap (mutate r f w) ! c = heap w ! c"
  by (simp add: mutate_def)

text \<open>
  What the two halves of a call, and so every event, do to a Track and the store.
\<close>

lemma getVideoDetails_start_effect:
  assumes "getVideoDetails_start this w = (c, this', w')"
  shows "link this' = link this \<and> variant this' = variant this
     \<and> sourceLink this' = sourceLink this
     \<and> (\<exists>zs. heap w' = heap w @ zs)
     \<and> (details this \<noteq> None \<longrightarrow> details this' = details this \<and> c \<noteq> AwaitingDetails)
     \<and> (c = AwaitingDetails \<longrightarrow> this' = this)"
proof (cases "details this")
  case (Some a)
  with assms show ?thesis
    by (auto simp: getVideoDetails_start_def spread_def alloc_def)
next
  case None
  with assms show ?thesis
    by (cases "variant this")
       (auto simp: getVideoDetails_start_def assign_and_return_def spread_def alloc_def emit_def)
qed

lemma getVideoDetails_resume_effect:
  assumes "getVideoDetails_resume answer this w = (r, this', w')"
  shows "link this' = link this \<and> variant this' = variant this
     \<and> sourceLink this' = sourceLink this
     \<and> (\<exists>zs. heap w' = heap w @ zs)
     \<and> (details this \<noteq> None \<longrightarrow> details this' \<noteq> None)
     \<and> fetches w' = fetches w"
  using assms
  by (cases answer)
     (auto simp: getVideoDetails_resume_def assign_and_return_def spread_def alloc_def
        fetches_def)

lemma getVideoDetails_resume_assigns:
  "getVideoDetails_resume (Inr d) this w =
     (Inr (Suc (length (heap w))), this\<lparr> details := Some (length (heap w)) \<rparr>,
      w\<lparr> heap := heap w @ [d, d] \<rparr>)"
  by (simp add: getVideoDetails_resume_def alloc_def assign_and_return_fresh)

lemma createAudioResource_heap:
  "heap (snd (createAudioResource env this options w)) = heap w"
  by (simp add: createAudioResource_def tryPlayDl_def tryYtdlExec_def Let_def emit_def
        split: sum.split ytdl_outcome.split)

lemma track_event_step_effect:
  assumes "track_event_step ev s = Some s'"
  shows "link (the_track s') = link (the_track s)
     \<and> variant (the_track s') = variant (the_track s)
     \<and> sourceLink (the_track s') = sourceLink (the_track s)
     \<and> (\<exists>zs. heap (the_world s') = heap (the_world s) @ zs)
     \<and> (details (the_track s) \<noteq> None \<longrightarrow> details (the_track s') \<noteq> None)
     \<and> (details (the_track s) \<noteq> None \<and> in_flight s = 0 \<longrightarrow>
          details (the_track s') = details (the_track s) \<and> in_flight s' = 0)
     \<and> (details (the_track s) \<noteq> None \<and> (\<forall>answer. ev \<noteq> Settle_details answer) \<longrightarrow>
          details (the_track s') = details (the_track s))"
proof (cases ev)
  case Call_getVideoDetails
  obtain c this1 w1 where g: "getVideoDetails_start (the_track s) (the_world s) = (c, this1, w1)"
    by (cases "getVideoDetails_start (the_track s) (the_world s)")
  from getVideoDetails_start_effect [OF g] assms Call_getVideoDetails g show ?thesis
    by (cases c) auto
next
  case (Settle_details answer)
  show ?thesis
  proof (cases "in_flight s")
    case 0
    with assms Settle_details show ?thesis by simp
  next
    case (Suc n)
    obtain r this1 w1 where
      g: "getVideoDetails_resume answer (the_track s) (the_world s) = (r, this1, w1)"
      by (cases "getVideoDetails_resume answer (the_track s) (the_world s)")
    from getVideoDetails_resume_effect [OF g] assms Settle_details Suc g show ?thesis
      by auto
  qed
next
  case (Call_createAudioResource env options)
  with assms show ?thesis
    by (auto simp: createAudioResource_heap)
next
  case (Call_getAudioResource env options)
  with assms show ?thesis
    by (auto simp: getAudioResource_def createAudioResource_heap)
qed

lemma track_events_effect:
  "track_events evs s = Some s' \<Longrightarrow>
     link (the_track s') = link (the_track s)
     \<and> variant (the_track s') = variant (the_track s)
     \<and> sourceLink (the_track s') = sourceLink (the_track s)
     \<and> (\<exists>zs. heap (the_world s') = heap (the_world s) @ zs)
     \<and> (details (the_track s) \<noteq> None \<longrightarrow> details (the_track s') \<noteq> None)
     \<and> (details (the_track s) \<noteq> None \<and> in_flight s = 0 \<longrightarrow>
          details (the_track s') = details (the_track s) \<and> in_flight s' = 0)"
proof (induction evs arbitrary: s)
  case Nil
  then show ?case by simp
next
  case (Cons ev evs)
  from Cons.prems obtain s1 where
    s: "track_event_step ev s = Some s1" and r: "track_events evs s1 = Some s'"
    by (auto split: option.splits)
  from track_event_step_effect [OF s] obtain zs1 where
    a: "link (the_track s1) = link (the_track s)"
      "variant (the_track s1) = variant (the_track s)"
      "sourceLink (the_track s1) = sourceLink (the_track s)"
      "heap (the_world s1) = heap (the_world s) @ zs1"
      "details (the_track s) \<noteq> None \<longrightarrow> details (the_track s1) \<noteq> None"
      "details (the_track s) \<noteq> None \<and> in_flight s = 0 \<longrightarrow>
          details (the_track s1) = details (the_track s) \<and> in_flight s1 = 0"
    by blast
  from Cons.IH [OF r] obtain zs2 where
    b: "link (the_track s') = link (the_track s1)"
      "variant (the_track s') = variant (the_track s1)"
      "sourceLink (the_track s') = sourceLink (the_track s1)"
      "heap (the_world s') = heap (the_world s1) @ zs2"
      "details (the_track s1) \<noteq> None \<longrightarrow> details (the_track s') \<noteq> None"
      "details (the_track s1) \<noteq> None \<and> in_flight s1 = 0 \<longrightarrow>
          details (the_track s') = details (the_track s1) \<and> in_flight s' = 0"
    by blast
  have "heap (the_world s') = heap (the_world s) @ (zs1 @ zs2)"
    using a(4) b(4) by simp
  then have "\<exists>zs. heap (the_world s') = heap (the_world s) @ zs" ..
  then show ?case using a b by auto
qed

lemma two_overlapping_starts:
  assumes "youtube_case (variant this)" and "details this = None"
  shows "track_events [Call_getVideoDetails, Call_getVideoDetails] (at_rest this w) =
     Some \<lparr> the_track = this,
            the_world = emit (CallYoutubeDetails (link this))
                          (emit (CallYoutubeDetails (link this)) w),
            in_flight = 2 \<rparr>"
  using assms
  by (cases "variant this") (simp_all add: at_rest_def getVideoDetails_start_def)

lemma fetches_twice_cached:
  "details this = Some a \<Longrightarrow>
     fetches (snd (snd (getVideoDetails_twice env1 env2 this w))) = fetches w"
  by (simp add: getVideoDetails_twice_def getVideoDetails_cached fetches_heap_update)

lemma track_events_append:
  "track_events (evs @ evs') s =
     (case track_events evs s of None \<Rightarrow> None | Some s1 \<Rightarrow> track_events evs' s1)"
  by (induction evs arbitrary: s) (simp_all split: option.split)

lemma fetches_after_overlapping:
  assumes "youtube_case (variant this)" and "details this = None"
  shows "fetches_after
           [Call_getVideoDetails, Call_getVideoDetails, Settle_details answer1,
            Settle_details answer2] this w = Some (fetches w + 2)"
proof -
  let ?w2 = "emit (CallYoutubeDetails (link this)) (emit (CallYoutubeDetails (link this)) w)"
  obtain r1 this1 w3 where g1: "getVideoDetails_resume answer1 this ?w2 = (r1, this1, w3)"
    by (cases "getVideoDetails_resume answer1 this ?w2")
  obtain r2 this2 w4 where g2: "getVideoDetails_resume answer2 this1 w3 = (r2, this2, w4)"
    by (cases "getVideoDetails_resume answer2 this1 w3")
  have f: "fetches w4 = fetches ?w2"
    using getVideoDetails_resume_effect [OF g1] getVideoDetails_resume_effect [OF g2] by simp
  have "track_events
          ([Call_getVideoDetails, Call_getVideoDetails] @
           [Settle_details answer1, Settle_details answer2]) (at_rest this w)
      = track_events [Settle_details answer1, Settle_details answer2]
          \<lparr> the_track = this, the_world = ?w2, in_flight = 2 \<rparr>"
    unfolding track_events_append two_overlapping_starts [OF assms] by simp
  then have "track_events
          [Call_getVideoDetails, Call_getVideoDetails, Settle_details answer1,
           Settle_details answer2] (at_rest this w)
      = track_events [Settle_details answer1, Settle_details answer2]
          \<lparr> the_track = this, the_world = ?w2, in_flight = 2 \<rparr>"
    by simp
  also have "\<dots> = Some \<lparr> the_track = this2, the_world = w4, in_flight = 0 \<rparr>"
    by (simp add: g1 g2 numeral_2_eq_2)
  finally show ?thesis
    by (simp add: fetches_after_def f fetches_emit)
qed

text \<open>
  C4 (as amended). With details populated, \<open>getVideoDetails\<close> returns a copy of them and
  calls no provider. Two calls, the second made when the first has settled, fetch exactly
  once when the Track is of a YouTube variant, has no details and the first fetch succeeds;
  not at all when the details are populated or the variant is a Twitch one; and twice when the
  first fetch fails, since a failed fetch stores nothing. Two overlapping calls on a YouTube
  Track without details, the second started before the first fetch has settled, fetch twice.
  Every call that returns hands out a new object with the content of the cached one, and a
  write to the returned object leaves the cached object as it is.
\<close>

theorem getVideoDetails_memoized_copy:
  assumes "track_ok this w"
  shows "(\<forall>a. details this = Some a \<longrightarrow>
            getVideoDetails env1 this w =
              (Inr (length (heap w)), this, w\<lparr> heap := heap w @ [heap w ! a] \<rparr>)
          \<and> fetches (snd (snd (getVideoDetails_twice env1 env2 this w))) = fetches w)
     \<and> (\<forall>d. youtube_case (variant this) \<and> details this = None
            \<and> getYoutubeDetailsFromUrl env1 (link this) = Inr d \<longrightarrow>
          getVideoDetails_twice env1 env2 this w =
            ((Inr (length (heap w) + 1), Inr (length (heap w) + 2)),
             this\<lparr> details := Some (length (heap w)) \<rparr>,
             w\<lparr> heap := heap w @ [d, d, d],
                trace := trace w @ [CallYoutubeDetails (link this)] \<rparr>)
          \<and> fetches (snd (snd (getVideoDetails_twice env1 env2 this w))) = fetches w + 1)
     \<and> (\<not> youtube_case (variant this) \<longrightarrow>
          fetches (snd (snd (getVideoDetails_twice env1 env2 this w))) = fetches w)
     \<and> (\<forall>err. youtube_case (variant this) \<and> details this = None
            \<and> getYoutubeDetailsFromUrl env1 (link this) = Inl err \<longrightarrow>
          getVideoDetails env1 this w = (Inl err, this, emit (CallYoutubeDetails (link this)) w)
          \<and> fetches (snd (snd (getVideoDetails_twice env1 env2 this w))) = fetches w + 2)
     \<and> (youtube_case (variant this) \<and> details this = None \<longrightarrow>
          fetches_after
            [Call_getVideoDetails, Call_getVideoDetails, Settle_details answer1,
             Settle_details answer2] this w = Some (fetches w + 2))
     \<and> (\<forall>r this' w'. getVideoDetails env1 this w = (Inr r, this', w') \<longrightarrow>
          (\<exists>c. details this' = Some c \<and> c \<noteq> r \<and> heap w' ! r = heap w' ! c
             \<and> (\<forall>f. heap (mutate r f w') ! c = heap w' ! c)))"
proof (intro conjI allI impI)
  fix a assume a: "details this = Some a"
  show "getVideoDetails env1 this w =
      (Inr (length (heap w)), this, w\<lparr> heap := heap w @ [heap w ! a] \<rparr>)"
    by (rule getVideoDetails_cached [OF a])
  show "fetches (snd (snd (getVideoDetails_twice env1 env2 this w))) = fetches w"
    by (rule fetches_twice_cached [OF a])
next
  fix d
  assume h: "youtube_case (variant this) \<and> details this = None
     \<and> getYoutubeDetailsFromUrl env1 (link this) = Inr d"
  then have first: "getVideoDetails env1 this w =
       (Inr (Suc (length (heap w))), this\<lparr> details := Some (length (heap w)) \<rparr>,
        emit (CallYoutubeDetails (link this)) w\<lparr> heap := heap w @ [d, d] \<rparr>)"
    by (simp add: getVideoDetails_fetch_ok)
  have second: "details (this\<lparr> details := Some (length (heap w)) \<rparr>) = Some (length (heap w))"
    by simp
  show two: "getVideoDetails_twice env1 env2 this w =
            ((Inr (length (heap w) + 1), Inr (length (heap w) + 2)),
             this\<lparr> details := Some (length (heap w)) \<rparr>,
             w\<lparr> heap := heap w @ [d, d, d],
                trace := trace w @ [CallYoutubeDetails (link this)] \<rparr>)"
    by (simp add: getVideoDetails_twice_def first getVideoDetails_cached [OF second]
          emit_def nth_append)
  show "fetches (snd (snd (getVideoDetails_twice env1 env2 this w))) = fetches w + 1"
    unfolding two by (simp add: fetches_def)
next
  assume t: "\<not> youtube_case (variant this)"
  show "fetches (snd (snd (getVideoDetails_twice env1 env2 this w))) = fetches w"
  proof (cases "details this")
    case (Some a)
    then show ?thesis by (rule fetches_twice_cached)
  next
    case None
    have second: "details (this\<lparr> details := Some (length (heap w)) \<rparr>) = Some (length (heap w))"
      by simp
    show ?thesis
      by (simp add: getVideoDetails_twice_def getVideoDetails_no_lookup [OF None t]
            getVideoDetails_cached [OF second] fetches_def)
  qed
next
  fix err
  assume h: "youtube_case (variant this) \<and> details this = None
     \<and> getYoutubeDetailsFromUrl env1 (link this) = Inl err"
  then show first: "getVideoDetails env1 this w =
      (Inl err, this, emit (CallYoutubeDetails (link this)) w)"
    by (simp add: getVideoDetails_fetch_fails)
  obtain r2 this2 w2 where
    g: "getVideoDetails env2 this (emit (CallYoutubeDetails (link this)) w) = (r2, this2, w2)"
    by (cases "getVideoDetails env2 this (emit (CallYoutubeDetails (link this)) w)")
  have "fetches w2 = fetches (emit (CallYoutubeDetails (link this)) w) + 1"
  proof (cases "getYoutubeDetailsFromUrl env2 (link this)")
    case (Inl err2)
    from g show ?thesis
      unfolding getVideoDetails_fetch_fails [OF h [THEN conjunct2, THEN conjunct1]
        h [THEN conjunct1] Inl]
      by (auto simp: fetches_emit)
  next
    case (Inr d)
    from g show ?thesis
      unfolding getVideoDetails_fetch_ok [OF h [THEN conjunct2, THEN conjunct1]
        h [THEN conjunct1] Inr]
      by (auto simp: fetches_def emit_def)
  qed
  then show "fetches (snd (snd (getVideoDetails_twice env1 env2 this w))) = fetches w + 2"
    by (simp add: getVideoDetails_twice_def first g fetches_emit)
next
  assume "youtube_case (variant this) \<and> details this = None"
  then show "fetches_after
            [Call_getVideoDetails, Call_getVideoDetails, Settle_details answer1,
             Settle_details answer2] this w = Some (fetches w + 2)"
    by (simp add: fetches_after_overlapping)
next
  fix r this' w'
  assume "getVideoDetails env1 this w = (Inr r, this', w')"
  from getVideoDetails_returns_copy [OF assms this]
  obtain c where "details this' = Some c" "c \<noteq> r" "heap w' ! r = heap w' ! c"
    by blast
  then show "\<exists>c. details this' = Some c \<and> c \<noteq> r \<and> heap w' ! r = heap w' ! c
             \<and> (\<forall>f. heap (mutate r f w') ! c = heap w' ! c)"
    by (auto simp: mutate_other)
qed

theorem getVideoDetails_memoized_copy_witness:
  "track_ok youtube_track empty_world
   \<and> youtube_case (variant youtube_track) \<and> details youtube_track = None
   \<and> getYoutubeDetailsFromUrl fallback_providers (link youtube_track)
       = Inr \<lparr> title = ''Some video'', duration = Some (Num 212) \<rparr>
   \<and> fst (getVideoDetails_twice fallback_providers failing_providers youtube_track empty_world)
       = (Inr 1, Inr 2)
   \<and> fetches (snd (snd (getVideoDetails_twice fallback_providers failing_providers
         youtube_track empty_world))) = 1
   \<and> getYoutubeDetailsFromUrl failing_providers (link youtube_track)
       = Inl (JsError None ''quotaExceeded'')
   \<and> fetches (snd (snd (getVideoDetails_twice failing_providers fallback_providers
         youtube_track empty_world))) = 2
   \<and> fetches_after
        [Call_getVideoDetails, Call_getVideoDetails,
         Settle_details (Inr \<lparr> title = ''Some video'', duration = Some (Num 212) \<rparr>),
         Settle_details (Inr \<lparr> title = ''Some video'', duration = Some (Num 212) \<rparr>)]
        youtube_track empty_world = Some 2"
proof -
  have h0: "track_ok youtube_track empty_world"
    by (simp add: track_ok_def youtube_track_def)
  have h1: "youtube_case (variant youtube_track)" and h2: "details youtube_track = None"
    by (simp_all add: youtube_track_def)
  have h3: "getYoutubeDetailsFromUrl fallback_providers (link youtube_track)
       = Inr \<lparr> title = ''Some video'', duration = Some (Num 212) \<rparr>"
    by (simp add: fallback_providers_def)
  have h4: "getYoutubeDetailsFromUrl failing_providers (link youtube_track)
       = Inl (JsError None ''quotaExceeded'')"
    by (simp add: failing_providers_def)
  have e: "length (heap empty_world) = 0" "fetches empty_world = 0"
    by (simp_all add: empty_world_def fetches_def)
  note t = getVideoDetails_memoized_copy [OF h0, of fallback_providers failing_providers
    "Inr \<lparr> title = ''Some video'', duration = Some (Num 212) \<rparr>"
    "Inr \<lparr> title = ''Some video'', duration = Some (Num 212) \<rparr>"]
  note u = getVideoDetails_memoized_copy [OF h0, of failing_providers fallback_providers]
  from t h1 h2 h3 have
    c1: "getVideoDetails_twice fallback_providers failing_providers youtube_track empty_world =
       ((Inr (length (heap empty_world) + 1), Inr (length (heap empty_world) + 2)),
        youtube_track\<lparr> details := Some (length (heap empty_world)) \<rparr>,
        empty_world\<lparr> heap := heap empty_world @
            [\<lparr> title = ''Some video'', duration = Some (Num 212) \<rparr>,
             \<lparr> title = ''Some video'', duration = Some (Num 212) \<rparr>,
             \<lparr> title = ''Some video'', duration = Some (Num 212) \<rparr>],
          trace := trace empty_world @ [CallYoutubeDetails (link youtube_track)] \<rparr>)"
    and c2: "fetches (snd (snd (getVideoDetails_twice fallback_providers failing_providers
         youtube_track empty_world))) = fetches empty_world + 1"
    by blast+
  from t h1 h2 have c3: "fetches_after
        [Call_getVideoDetails, Call_getVideoDetails,
         Settle_details (Inr \<lparr> title = ''Some video'', duration = Some (Num 212) \<rparr>),
         Settle_details (Inr \<lparr> title = ''Some video'', duration = Some (Num 212) \<rparr>)]
        youtube_track empty_world = Some (fetches empty_world + 2)"
    by blast
  from u h1 h2 h4 have c4: "fetches (snd (snd (getVideoDetails_twice failing_providers
      fallback_providers youtube_track empty_world))) = fetches empty_world + 2"
    by blast
  show ?thesis using h0 h1 h2 h3 h4 c1 c2 c3 c4 by (simp add: e)
qed

text \<open>
  C4 as stated fails: two calls on a Twitch Track fetch nothing; two calls on a YouTube
  Track whose fetch fails fetch twice, since a failed fetch stores nothing; and two calls that
  overlap fetch twice even though both fetches succeed.
\<close>

theorem getVideoDetails_fetch_count_counterexample:
  "fetches (snd (snd (getVideoDetails_twice fallback_providers fallback_providers
      twitch_track empty_world))) = 0
   \<and> fetches (snd (snd (getVideoDetails_twice failing_providers failing_providers
      youtube_track empty_world))) = 2
   \<and> fetches_after (overlapping_calls @ [late_settlement]) live_track empty_world = Some 2"
  by (simp add: getVideoDetails_twice_def getVideoDetails_def getVideoDetails_start_def
        getVideoDetails_resume_def assign_and_return_def spread_def
        alloc_def emit_def fetches_def twitch_track_def youtube_track_def empty_world_def
        failing_providers_def fetches_after_def overlapping_calls_def late_settlement_def
        live_track_def at_rest_def)

text \<open>
  C5 (as amended). For a Track of a Twitch variant that has no details yet,
  \<open>getVideoDetails\<close> does not fail and calls no provider: it stores the placeholder
  \<open>{title: 'TODO'}\<close> and returns a copy of it, and so does the call after it.
\<close>

theorem getVideoDetails_placeholder_TODO:
  assumes "\<not> youtube_case (variant this)" and "details this = None"
  shows "getVideoDetails env this w =
       (Inr (Suc (length (heap w))), this\<lparr> details := Some (length (heap w)) \<rparr>,
        w\<lparr> heap := heap w @ [\<lparr> title = ''TODO'', duration = None \<rparr>,
                               \<lparr> title = ''TODO'', duration = None \<rparr>] \<rparr>)
     \<and> returned_details (getVideoDetails env this w)
         = Some \<lparr> title = ''TODO'', duration = None \<rparr>
     \<and> returned_details (getVideoDetails env2
           (fst (snd (getVideoDetails env this w))) (snd (snd (getVideoDetails env this w))))
         = Some \<lparr> title = ''TODO'', duration = None \<rparr>
     \<and> trace (snd (snd (getVideoDetails env this w))) = trace w"
proof -
  note first = getVideoDetails_no_lookup [OF assms(2,1), of env w]
  have second: "details (this\<lparr> details := Some (length (heap w)) \<rparr>) = Some (length (heap w))"
    by simp
  show ?thesis
    unfolding first by (simp add: getVideoDetails_cached [OF second] nth_append)
qed

theorem getVideoDetails_placeholder_TODO_witness:
  "\<not> youtube_case (variant twitch_track) \<and> details twitch_track = None
   \<and> returned_details (getVideoDetails failing_providers twitch_track empty_world)
       = Some \<lparr> title = ''TODO'', duration = None \<rparr>"
proof -
  have h1: "\<not> youtube_case (variant twitch_track)" and h2: "details twitch_track = None"
    by (simp_all add: twitch_track_def)
  from getVideoDetails_placeholder_TODO [OF h1 h2, of failing_providers empty_world] h1 h2
  show ?thesis by blast
qed

text \<open>
  C5 as stated fails: the title returned for a Twitch Track without details is \<open>TODO\<close>, not
  \<open>unknown\<close>; and a Twitch Track constructed with details returns those, not a placeholder.
\<close>

theorem getVideoDetails_placeholder_counterexample:
  "map_option title (returned_details (getVideoDetails failing_providers twitch_track empty_world))
     = Some ''TODO''
   \<and> map_option title (returned_details (getVideoDetails failing_providers twitch_track empty_world))
     \<noteq> Some ''unknown''
   \<and> map_option title (returned_details (getVideoDetails failing_providers
        titled_track titled_world))
     = Some ''Speedrun marathon''"
  by (simp add: getVideoDetails_def getVideoDetails_start_def assign_and_return_def spread_def
        alloc_def twitch_track_def empty_world_def titled_track_def titled_world_def)

text \<open>
  C8 (as amended). However calls on a Track overlap, the fields \<open>link\<close>, \<open>variant\<close> and
  \<open>sourceLink\<close> keep the values the constructor gave them, populated details are never
  cleared, and no object of the store is ever written. No operation that starts while the
  details are populated changes them; so from a moment at which they are populated and no
  call of \<open>getVideoDetails\<close> is suspended, they stay the same reference for the rest of the
  lifetime. But a call of \<open>getVideoDetails\<close> that is suspended at its fetch assigns the
  result of the fetch when it resolves, whatever the details hold by then.
\<close>

theorem track_identity_stable_details_kept:
  assumes "track_events evs s = Some s'"
  shows "link (the_track s') = link (the_track s)
     \<and> variant (the_track s') = variant (the_track s)
     \<and> sourceLink (the_track s') = sourceLink (the_track s)
     \<and> link (new_Track options) = opt_link options
     \<and> variant (new_Track options) = opt_variant options
     \<and> sourceLink (new_Track options) = opt_sourceLink options
     \<and> (details (the_track s) \<noteq> None \<longrightarrow> details (the_track s') \<noteq> None)
     \<and> (\<forall>a. a < length (heap (the_world s)) \<longrightarrow>
           heap (the_world s') ! a = heap (the_world s) ! a)
     \<and> (\<forall>ev s1. track_event_step ev s = Some s1 \<and> details (the_track s) \<noteq> None
           \<and> (\<forall>answer. ev \<noteq> Settle_details answer) \<longrightarrow>
           details (the_track s1) = details (the_track s))
     \<and> (details (the_track s) \<noteq> None \<and> in_flight s = 0 \<longrightarrow>
           details (the_track s') = details (the_track s) \<and> in_flight s' = 0)
     \<and> (\<forall>d s1. track_event_step (Settle_details (Inr d)) s = Some s1 \<longrightarrow>
           details (the_track s1) = Some (length (heap (the_world s)))
           \<and> heap (the_world s1) ! length (heap (the_world s)) = d)"
proof -
  from track_events_effect [OF assms] obtain zs where
    i: "link (the_track s') = link (the_track s)"
      "variant (the_track s') = variant (the_track s)"
      "sourceLink (the_track s') = sourceLink (the_track s)"
    and h: "heap (the_world s') = heap (the_world s) @ zs"
    and k: "details (the_track s) \<noteq> None \<longrightarrow> details (the_track s') \<noteq> None"
    and r: "details (the_track s) \<noteq> None \<and> in_flight s = 0 \<longrightarrow>
          details (the_track s') = details (the_track s) \<and> in_flight s' = 0"
    by blast
  have c: "details (the_track s1) = details (the_track s)"
    if "track_event_step ev s = Some s1 \<and> details (the_track s) \<noteq> None
           \<and> (\<forall>answer. ev \<noteq> Settle_details answer)" for ev s1
    using that track_event_step_effect [of ev s s1] by blast
  have l: "details (the_track s1) = Some (length (heap (the_world s)))
           \<and> heap (the_world s1) ! length (heap (the_world s)) = d"
    if "track_event_step (Settle_details (Inr d)) s = Some s1" for d s1
    using that
    by (cases "in_flight s") (auto simp: getVideoDetails_resume_assigns nth_append)
  have c': "\<forall>ev s1. track_event_step ev s = Some s1 \<and> details (the_track s) \<noteq> None
           \<and> (\<forall>answer. ev \<noteq> Settle_details answer) \<longrightarrow>
           details (the_track s1) = details (the_track s)"
    using c by blast
  have l': "\<forall>d s1. track_event_step (Settle_details (Inr d)) s = Some s1 \<longrightarrow>
           details (the_track s1) = Some (length (heap (the_world s)))
           \<and> heap (the_world s1) ! length (heap (the_world s)) = d"
    using l by blast
  have n: "link (new_Track options) = opt_link options"
    "variant (new_Track options) = opt_variant options"
    "sourceLink (new_Track options) = opt_sourceLink options"
    by (simp_all add: new_Track_def)
  have p: "\<forall>a. a < length (heap (the_world s)) \<longrightarrow>
           heap (the_world s') ! a = heap (the_world s) ! a"
    by (simp add: h nth_append)
  show ?thesis
    using i n k p c' r l' by blast
qed

theorem track_identity_stable_details_kept_witness:
  "details (the_track (at_rest titled_track titled_world)) \<noteq> None
   \<and> in_flight (at_rest titled_track titled_world) = 0
   \<and> (\<exists>s'. track_events some_events (at_rest titled_track titled_world) = Some s'
         \<and> link (the_track s') = link titled_track
         \<and> details (the_track s') = Some 0
         \<and> heap (the_world s') ! 0 = \<lparr> title = ''Speedrun marathon'', duration = None \<rparr>)"
proof -
  let ?s = "at_rest titled_track titled_world"
  have h1: "details (the_track ?s) \<noteq> None" and h2: "in_flight ?s = 0"
    and d: "details (the_track ?s) = Some 0" and t: "the_track ?s = titled_track"
    and l: "0 < length (heap (the_world ?s))"
    and c: "heap (the_world ?s) ! 0 = \<lparr> title = ''Speedrun marathon'', duration = None \<rparr>"
    by (simp_all add: at_rest_def titled_track_def titled_world_def)
  have "track_events some_events ?s \<noteq> None"
    by (simp add: some_events_def at_rest_def titled_track_def getVideoDetails_start_def
          spread_def alloc_def)
  then obtain s' where r: "track_events some_events ?s = Some s'"
    by blast
  note th = track_identity_stable_details_kept [OF r]
  from th have "link (the_track s') = link (the_track ?s)" by blast
  moreover from th h1 h2 have "details (the_track s') = details (the_track ?s)" by blast
  moreover from th l have "heap (the_world s') ! 0 = heap (the_world ?s) ! 0" by blast
  ultimately have "link (the_track s') = link titled_track
      \<and> details (the_track s') = Some 0
      \<and> heap (the_world s') ! 0 = \<lparr> title = ''Speedrun marathon'', duration = None \<rparr>"
    using d t c by simp
  with r h1 h2 show ?thesis by blast
qed

text \<open>
  C8 as stated fails: two calls of \<open>getVideoDetails\<close> overlap on a livestream Track; when the
  first fetch resolves the details are populated, and when the second fetch resolves the
  second call replaces them.
\<close>

theorem track_details_replaced_counterexample:
  "details_after overlapping_calls live_track empty_world
     = Some (Some \<lparr> title = ''Live: warm-up'', duration = None \<rparr>)
   \<and> details_after (overlapping_calls @ [late_settlement]) live_track empty_world
     = Some (Some \<lparr> title = ''Live: main event'', duration = None \<rparr>)"
  by (simp add: details_after_def overlapping_calls_def late_settlement_def live_track_def
        empty_world_def at_rest_def getVideoDetails_start_def getVideoDetails_resume_def
        assign_and_return_def spread_def alloc_def emit_def)

section \<open>Properties of pause and resume\<close>

text \<open>
  C7. \<open>pause\<close> returns false when the status is not \<open>playing\<close>, \<open>resume\<close> returns false when
  the status is not \<open>paused\<close>, and whenever either returns false the session, its status
  included, is what it was: the result is a boolean, never an error. The handler of pause.ts
  then replies \<open>Could not pause.\<close>
\<close>

theorem pause_resume_invalid_transition_noop:
  "(status s \<noteq> Playing \<longrightarrow> fst (pause s) = False)
   \<and> (status s \<noteq> Paused \<longrightarrow> fst (resume s) = False)
   \<and> (fst (pause s) = False \<longrightarrow> snd (pause s) = s \<and> status (snd (pause s)) = status s)
   \<and> (fst (resume s) = False \<longrightarrow> snd (resume s) = s \<and> status (snd (resume s)) = status s)
   \<and> (status s \<noteq> Playing \<longrightarrow> pause_runCommand (Some s) = (''Could not pause.'', Some s))"
  by (simp add: pause_def resume_def pause_runCommand_def)

theorem pause_resume_invalid_transition_noop_witness:
  "status idle_session \<noteq> Playing \<and> status idle_session \<noteq> Paused
   \<and> fst (pause idle_session) = False \<and> snd (pause idle_session) = idle_session
   \<and> fst (resume idle_session) = False \<and> snd (resume idle_session) = idle_session
   \<and> status playing_session \<noteq> Paused
   \<and> fst (resume playing_session) = False \<and> snd (resume playing_session) = playing_session
   \<and> pause_runCommand (Some idle_session) = (''Could not pause.'', Some idle_session)"
proof -
  have h1: "status idle_session \<noteq> Playing" and h2: "status idle_session \<noteq> Paused"
    by (simp_all add: idle_session_def)
  have h3: "status playing_session \<noteq> Paused" by (simp add: playing_session_def)
  from pause_resume_invalid_transition_noop [of idle_session]
    pause_resume_invalid_transition_noop [of playing_session] h1 h2 h3
  show ?thesis by blast
qed

section \<open>Properties of shuffleArray\<close>































end
